theory Spec2Isabelle
  imports Complex_Main "HOL-Library.Sublist"
begin

section \<open>JavaScript values, errors and truthiness\<close>

text \<open>
  A thrown JavaScript error object: the name of its class and its \<open>message\<close>.
  \<open>Error m\<close> is what \<^verbatim>\<open>throw new Error(m)\<close> throws.
\<close>

datatype js_error = Thrown (errorName: string) (message: string)

abbreviation Error :: "string \<Rightarrow> js_error" where
  "Error m \<equiv> Thrown ''Error'' m"

text \<open>
  The values \<^verbatim>\<open>namespaceExists\<close> can hand back. In JavaScript \<^verbatim>\<open>a && b\<close> evaluates
  to \<^verbatim>\<open>a\<close> itself when \<^verbatim>\<open>a\<close> is falsy, so the value of
  \<^verbatim>\<open>stats.namespaces && stats.namespaces[namespace] !== undefined\<close> would be
  \<^verbatim>\<open>undefined\<close> for statistics without a \<^verbatim>\<open>namespaces\<close> field. The Pinecone client
  always fills that field, with an empty table for an empty index, so the properties of
  the check are stated for statistics that carry the table.
\<close>

datatype js_value = JSBool bool | JSUndefined

fun truthy :: "js_value \<Rightarrow> bool" where
  "truthy (JSBool b) = b"
| "truthy JSUndefined = False"

text \<open>
  Optional request fields: \<open>None\<close> is an absent field (\<^verbatim>\<open>undefined\<close>). A string is
  truthy when it is present and not empty.
\<close>

fun truthyString :: "string option \<Rightarrow> bool" where
  "truthyString None = False"
| "truthyString (Some s) = (s \<noteq> [])"

text \<open>The text of a field that was found truthy.\<close>

fun stringOf :: "string option \<Rightarrow> string" where
  "stringOf None = []"
| "stringOf (Some s) = s"

section \<open>Strings\<close>

text \<open>
  Strings are lists of 8-bit characters: code units below 256. \<open>isWhiteSpace\<close> holds of
  the white space and line terminators among them that \<^verbatim>\<open>String.prototype.trim\<close> strips:
  tab, line feed, vertical tab, form feed, carriage return, space and the no-break space
  U+00A0. The others it strips (U+FEFF, U+1680, U+2000 to U+200A, U+2028, U+2029, U+202F,
  U+205F, U+3000) lie above 255 and do not occur in these strings.
\<close>

definition newline :: string where
  "newline = [CHR 0x0A]"

definition isWhiteSpace :: "char \<Rightarrow> bool" where
  "isWhiteSpace c = (c = CHR 0x09 \<or> c = CHR 0x0A \<or> c = CHR 0x0B \<or> c = CHR 0x0C
     \<or> c = CHR 0x0D \<or> c = CHR 0x20 \<or> c = CHR 0xA0)"

definition trim :: "string \<Rightarrow> string" where
  "trim s = rev (dropWhile isWhiteSpace (rev (dropWhile isWhiteSpace s)))"

text \<open>\<^verbatim>\<open>Array.prototype.join\<close> on an array of strings.\<close>

fun join :: "string \<Rightarrow> string list \<Rightarrow> string" where
  "join sep [] = []"
| "join sep [x] = x"
| "join sep (x # y # ys) = x @ sep @ join sep (y # ys)"

text \<open>
  The decimal text of an integer, as \<^verbatim>\<open>Math.floor(t) + "s"\<close> renders it. This is what
  JavaScript prints for integers of magnitude up to \<open>2\<^sup>5\<^sup>3\<close>; above, it rounds the digits, and
  from \<open>10\<^sup>2\<^sup>1\<close> on it switches to exponent notation. The properties of the time stamp
  line are stated for time stamps below \<open>2\<^sup>5\<^sup>3\<close> in magnitude. A time stamp is the value
  of the JavaScript number in \<^verbatim>\<open>context.timestamp\<close>, as a real.
\<close>

fun decimal :: "nat \<Rightarrow> string" where
  "decimal n = (if n < 10 then [''0123456789'' ! n]
                else decimal (n div 10) @ [''0123456789'' ! (n mod 10)])"

declare decimal.simps [simp del]

definition numberToString :: "int \<Rightarrow> string" where
  "numberToString i = (if i < 0 then ''-'' @ decimal (nat (- i)) else decimal (nat i))"

section \<open>Configuration\<close>

record config =
  modelName :: string
  temperature :: real
  embeddingModel :: string
  chunkSize :: nat
  chunkOverlap :: nat
  maxRetries :: nat
  retryDelay :: int
  maxConcurrency :: nat
  topK :: nat
  cacheTTL :: int

definition DEFAULT_CONFIG :: config where
  "DEFAULT_CONFIG = \<lparr>
     modelName = ''gpt-3.5-turbo'',
     temperature = 0.2,
     embeddingModel = ''text-embedding-3-small'',
     chunkSize = 1000,
     chunkOverlap = 150,
     maxRetries = 3,
     retryDelay = 2000,
     maxConcurrency = 5,
     topK = 6,
     cacheTTL = 24 * 60 * 60 * 1000 \<rparr>"

text \<open>The separator list handed to the text splitter, in priority order.\<close>

definition SEPARATORS :: "string list" where
  "SEPARATORS = [newline @ newline, newline, ''. '', ''! '', ''? '', '' '', '''']"

section \<open>Documents, requests and answers\<close>

text \<open>
  A LangChain document. The metadata is \<^verbatim>\<open>{ source }\<close> for a transcript supplied by the
  caller, \<^verbatim>\<open>{ source, videoId, chunkIndex, timestamp }\<close> for a chunk (the time stamp is kept
  as the clock reading the ISO text is rendered from), and opaque for documents that come
  from the loader or the store.
\<close>

datatype doc_metadata =
    SourceMeta string
  | ChunkMeta string string nat int
  | OtherMeta

record document =
  pageContent :: string
  metadata :: doc_metadata

text \<open>
  The \<^verbatim>\<open>context\<close> object of a request, and the request body that extends it. The
  fields have the types of the inbound request (strings, and a number for the playback
  position); each may be absent.
\<close>

record query_context =
  title :: "string option"
  description :: "string option"
  timestamp :: "real option"
  transcript :: "string option"

record request_body = query_context +
  videoUrl :: "string option"
  query :: "string option"

text \<open>
  What \<^verbatim>\<open>askYoutube\<close> returns: a plain string, or the chain
  \<^verbatim>\<open>Prompt.pipe(model).pipe(parser)\<close>, identified by the system prompt it was built from.
\<close>

datatype answer = Literal string | Chain string

section \<open>Collaborators and state\<close>

text \<open>
  Every call the program makes to a collaborator is logged as an event, in order. A write
  records its outcome.
\<close>

datatype event =
    DescribeIndexStats
  | LoaderLoad string
  | SplitText string
  | AddDocuments string "document list" "js_error option"
  | Sleep int
  | RetrieverInvoke string string nat
  | ModelStream string string

text \<open>
  The events of the ingestion phase (loading, splitting, writing), the writes among them,
  and the invocations of the language model.
\<close>

fun isIngestion :: "event \<Rightarrow> bool" where
  "isIngestion (LoaderLoad u) = True"
| "isIngestion (SplitText t) = True"
| "isIngestion (AddDocuments n ds r) = True"
| "isIngestion e = False"

fun isWrite :: "event \<Rightarrow> bool" where
  "isWrite (AddDocuments n ds r) = True"
| "isWrite e = False"

fun isModelCall :: "event \<Rightarrow> bool" where
  "isModelCall (ModelStream p q) = True"
| "isModelCall e = False"

text \<open>
  The state a request runs in: the module's \<^verbatim>\<open>embeddingCache\<close> map (namespace to the
  clock reading of its last confirmation), the contents of the vector store (of an
  arbitrary type \<open>'s\<close>: only a write changes it) and the log of events so far.
\<close>

record 's world =
  embeddingCache :: "string \<rightharpoonup> int"
  store :: 's
  trace :: "event list"

definition logEvent :: "event \<Rightarrow> 's world \<Rightarrow> 's world" where
  "logEvent e w = w\<lparr>trace := trace w @ [e]\<rparr>"

text \<open>The result of \<^verbatim>\<open>index.describeIndexStats()\<close>; the \<^verbatim>\<open>namespaces\<close> field is optional.\<close>

record stats =
  namespaces :: "(string \<rightharpoonup> nat) option"

text \<open>
  The libraries and services the program calls are parameters. Each may answer differently
  as the state evolves, and each failing call is an \<open>Inl\<close> (or \<open>Some\<close>) error:
  \<^item> \<open>searchParamV u\<close> is \<^verbatim>\<open>new URL(u).searchParams.get("v")\<close>: the constructor throws on
    text that is no URL, and \<open>get\<close> yields \<^verbatim>\<open>null\<close> (here \<open>None\<close>) without the parameter;
  \<^item> \<open>chatOpenAIInit\<close>, \<open>embeddingsInit\<close>, \<open>pineconeInit\<close>: the client constructors;
  \<^item> \<open>dateNow\<close> is \<^verbatim>\<open>Date.now()\<close>;
  \<^item> \<open>loaderLoad\<close> is \<^verbatim>\<open>YoutubeLoader.createFromUrl(...).load()\<close>;
  \<^item> \<open>splitText\<close> is the \<^verbatim>\<open>RecursiveCharacterTextSplitter\<close>, given chunk size, overlap and
    separators;
  \<^item> \<open>addDocuments\<close> embeds and upserts, yielding its outcome and the store it leaves;
  \<^item> \<open>retrieverInvoke\<close> is the similarity search in a namespace for the top \<open>k\<close>;
  \<^item> \<open>promptFromMessages\<close> is \<^verbatim>\<open>ChatPromptTemplate.fromMessages\<close>, which parses the
    system prompt as a template;
  \<^item> \<open>chainStream\<close> runs the chain: the fragments produced, and the error that ended the
    stream if one did.
\<close>

record 's env =
  searchParamV :: "string \<Rightarrow> js_error + string option"
  chatOpenAIInit :: "js_error option"
  embeddingsInit :: "js_error option"
  pineconeInit :: "js_error option"
  dateNow :: "'s world \<Rightarrow> int"
  describeIndexStats :: "'s world \<Rightarrow> js_error + stats"
  loaderLoad :: "'s world \<Rightarrow> string \<Rightarrow> js_error + document list"
  splitText :: "nat \<Rightarrow> nat \<Rightarrow> string list \<Rightarrow> string \<Rightarrow> js_error + string list"
  addDocuments :: "'s world \<Rightarrow> string \<Rightarrow> document list \<Rightarrow> js_error option \<times> 's"
  retrieverInvoke :: "'s world \<Rightarrow> string \<Rightarrow> string \<Rightarrow> nat \<Rightarrow> js_error + document list"
  promptFromMessages :: "string \<Rightarrow> js_error option"
  chainStream :: "'s world \<Rightarrow> string \<Rightarrow> string \<Rightarrow> string list \<times> js_error option"

section \<open>namespaceExists\<close>

text \<open>
  The whole body is inside \<^verbatim>\<open>try\<close>: a failing statistics query is caught and answered
  with \<^verbatim>\<open>false\<close>. The freshness test reads \<^verbatim>\<open>DEFAULT_CONFIG.cacheTTL\<close>. Console output is
  not modelled.
\<close>

definition cacheFresh :: "'s env \<Rightarrow> string \<Rightarrow> 's world \<Rightarrow> bool" where
  "cacheFresh env namespace w =
     (case embeddingCache w namespace of
        None \<Rightarrow> False
      | Some cachedAt \<Rightarrow> dateNow env w - cachedAt < cacheTTL DEFAULT_CONFIG)"

definition namespaceExists :: "'s env \<Rightarrow> string \<Rightarrow> 's world \<Rightarrow> js_value \<times> 's world" where
  "namespaceExists env namespace w =
     (if cacheFresh env namespace w
      then (JSBool True, w)
      else
        (let w1 = logEvent DescribeIndexStats w in
         case describeIndexStats env w of
           Inl error \<Rightarrow> (JSBool False, w1)
         | Inr stats \<Rightarrow>
             (case namespaces stats of
                None \<Rightarrow> (JSUndefined, w1)
              | Some table \<Rightarrow>
                  if table namespace \<noteq> None
                  then (JSBool True,
                        w1\<lparr>embeddingCache := (embeddingCache w1)(namespace \<mapsto> dateNow env w1)\<rparr>)
                  else (JSBool False, w1))))"

text \<open>
  What the claims call the namespace being present: the statistics query answers and the
  table it carries lists the namespace.
\<close>

definition namespacePresent :: "'s env \<Rightarrow> string \<Rightarrow> 's world \<Rightarrow> bool" where
  "namespacePresent env namespace w =
     (case describeIndexStats env w of
        Inl e \<Rightarrow> False
      | Inr stats \<Rightarrow>
          (case namespaces stats of None \<Rightarrow> False | Some table \<Rightarrow> table namespace \<noteq> None))"

section \<open>askYoutube\<close>

subsection \<open>Store in Pinecone with retries\<close>

text \<open>
  The \<^verbatim>\<open>while (attempts < finalConfig.maxRetries)\<close> loop, entered with \<open>attempts = 0\<close>. A
  successful write sets the cache record, waits \<open>retryDelay\<close> and leaves the loop; a failed
  one counts the attempt, rethrows the error when the count has reached \<open>maxRetries\<close>, and
  otherwise waits \<open>retryDelay * attempts\<close> and goes round again. The result is the error
  thrown out of the loop, if any.
\<close>

function storeWithRetries ::
  "'s env \<Rightarrow> config \<Rightarrow> string \<Rightarrow> document list \<Rightarrow> nat \<Rightarrow> 's world
     \<Rightarrow> js_error option \<times> 's world" where
  "storeWithRetries env finalConfig namespace documents attempts w =
     (if attempts < maxRetries finalConfig then
        (case addDocuments env w namespace documents of
           (None, store') \<Rightarrow>
             (let w1 = logEvent (AddDocuments namespace documents None) (w\<lparr>store := store'\<rparr>);
                  w2 = w1\<lparr>embeddingCache := (embeddingCache w1)(namespace \<mapsto> dateNow env w1)\<rparr>
              in (None, logEvent (Sleep (retryDelay finalConfig)) w2))
         | (Some error, store') \<Rightarrow>
             (let w1 = logEvent (AddDocuments namespace documents (Some error))
                         (w\<lparr>store := store'\<rparr>)
              in if Suc attempts = maxRetries finalConfig then (Some error, w1)
                 else storeWithRetries env finalConfig namespace documents (Suc attempts)
                        (logEvent (Sleep (retryDelay finalConfig * int (Suc attempts))) w1)))
      else (None, w))"
  by pat_completeness auto
termination
  by (relation "measure (\<lambda>(env, finalConfig, namespace, documents, attempts, w).
        maxRetries finalConfig - attempts)") auto

declare storeWithRetries.simps [simp del]

subsection \<open>Load, split and store the transcript\<close>

text \<open>
  A transcript supplied with the request (a truthy \<^verbatim>\<open>context.transcript\<close>) is wrapped in one
  document; otherwise the loader is called, and any failure of it is rethrown as the
  captions error.
\<close>

definition loadTranscript ::
  "'s env \<Rightarrow> string \<Rightarrow> query_context \<Rightarrow> 's world \<Rightarrow> (js_error + document list) \<times> 's world" where
  "loadTranscript env url context w =
     (if truthyString (transcript context)
      then (Inr [\<lparr>pageContent = stringOf (transcript context), metadata = SourceMeta url\<rparr>], w)
      else
        (case loaderLoad env w url of
           Inl e \<Rightarrow>
             (Inl (Error ''Could not retrieve transcript. Please ensure the video has captions.''),
              logEvent (LoaderLoad url) w)
         | Inr docs \<Rightarrow> (Inr docs, logEvent (LoaderLoad url) w)))"

text \<open>
  Sections 3 to 5 of \<^verbatim>\<open>askYoutube\<close>, run when the namespace check came back falsy. The
  chunks become documents that carry their position in the transcript.
\<close>

definition ingest ::
  "'s env \<Rightarrow> config \<Rightarrow> string \<Rightarrow> string \<Rightarrow> string \<Rightarrow> query_context \<Rightarrow> 's world
     \<Rightarrow> js_error option \<times> 's world" where
  "ingest env finalConfig url videoId namespace context w =
     (case loadTranscript env url context w of
        (Inl e, w1) \<Rightarrow> (Some e, w1)
      | (Inr [], w1) \<Rightarrow> (Some (Error ''Transcript not found or is empty.''), w1)
      | (Inr (doc # rest), w1) \<Rightarrow>
          if trim (pageContent doc) = [] then (Some (Error ''Transcript not found or is empty.''), w1)
          else
            (let w2 = logEvent (SplitText (pageContent doc)) w1 in
             case splitText env (chunkSize finalConfig) (chunkOverlap finalConfig) SEPARATORS
                    (pageContent doc) of
               Inl e \<Rightarrow> (Some e, w2)
             | Inr textChunks \<Rightarrow>
                 storeWithRetries env finalConfig namespace
                   (map (\<lambda>(index, chunk).
                          \<lparr>pageContent = chunk,
                           metadata = ChunkMeta url videoId index (dateNow env w2)\<rparr>)
                        (enumerate 0 textChunks))
                   0 w2))"

subsection \<open>Prompt with context injection\<close>

definition NO_RESULTS :: string where
  "NO_RESULTS = ''I couldn'' @ [CHR 0x27] @
     ''t find any relevant information in the video to answer your question.''"

definition CONTEXT_MARKER :: string where
  "CONTEXT_MARKER = ''[Context Chunk]: ''"

definition PromptContext :: "document list \<Rightarrow> string" where
  "PromptContext results =
     join (newline @ newline) (map (\<lambda>doc. CONTEXT_MARKER @ pageContent doc) results)"

text \<open>
  The three interpolations of the template: \<^verbatim>\<open>a || b\<close> falls back on a falsy \<^verbatim>\<open>a\<close>,
  and a number is falsy when it is zero.
\<close>

definition titleText :: "query_context \<Rightarrow> string" where
  "titleText context =
     (if truthyString (title context) then stringOf (title context) else ''Unknown'')"

definition descriptionText :: "query_context \<Rightarrow> string" where
  "descriptionText context =
     (if truthyString (description context) then stringOf (description context) else ''None'')"

definition timestampText :: "query_context \<Rightarrow> string" where
  "timestampText context =
     (case timestamp context of
        Some t \<Rightarrow> if t \<noteq> 0 then numberToString \<lfloor>t\<rfloor> @ ''s'' else ''Start''
      | None \<Rightarrow> ''Start'')"

definition promptHead :: string where
  "promptHead = ''You are an expert YouTube video assistant.'' @ newline @
     ''    '' @ newline @
     ''    VIDEO CONTEXT:'' @ newline"

definition promptInstructions :: string where
  \<open>promptInstructions = ''    '' @ newline @
     ''    INSTRUCTIONS:'' @ newline @
     ''    1. Answer the user'' @ [CHR 0x27] @ ''s question based STRICTLY on the provided video context chunks.'' @ newline @
     ''    2. If the answer is not in the context, say "I cannot find the answer in this video."'' @ newline @
     ''    3. Use a friendly, helpful tone.'' @ newline @
     ''    4. If relevant, mention if the user is currently at a part of the video related to the topic (based on timestamp).'' @ newline @
     ''    5. Format your answer with Markdown.'' @ newline @
     ''    6. CITE YOUR SOURCES: When using information, try to estimate the timestamp if possible (e.g., [05:30]) based on the context flow, or at least quote the specific phrase.'' @ newline @
     ''    '' @ newline @
     ''    CONTEXT CHUNKS:'' @ newline\<close>

definition systemPrompt :: "query_context \<Rightarrow> document list \<Rightarrow> string" where
  "systemPrompt context results =
     promptHead @
     ''    Title: '' @ titleText context @ newline @
     ''    Description: '' @ descriptionText context @ newline @
     ''    Current User Timestamp: '' @ timestampText context @ newline @
     promptInstructions @
     ''    '' @ PromptContext results"

subsection \<open>Retrieve relevant chunks and build the chain\<close>

definition retrieveAndCompose ::
  "'s env \<Rightarrow> config \<Rightarrow> string \<Rightarrow> string \<Rightarrow> query_context \<Rightarrow> 's world
     \<Rightarrow> (js_error + answer) \<times> 's world" where
  "retrieveAndCompose env finalConfig namespace q context w =
     (let w1 = logEvent (RetrieverInvoke namespace q (topK finalConfig)) w in
      case retrieverInvoke env w namespace q (topK finalConfig) of
        Inl e \<Rightarrow> (Inl e, w1)
      | Inr results \<Rightarrow>
          if results = [] then (Inr (Literal NO_RESULTS), w1)
          else (case promptFromMessages env (systemPrompt context results) of
                  Some e \<Rightarrow> (Inl e, w1)
                | None \<Rightarrow> (Inr (Chain (systemPrompt context results)), w1)))"

subsection \<open>The pipeline\<close>

text \<open>
  \<open>finalConfig\<close> is \<^verbatim>\<open>{ ...DEFAULT_CONFIG, ...config }\<close>, the defaults with the caller's
  overrides. A failing \<^verbatim>\<open>ChatOpenAI\<close> constructor is caught and replaced by the fallback
  error; the other constructors' errors pass through.
\<close>

definition ensureIndexed ::
  "'s env \<Rightarrow> string \<Rightarrow> query_context \<Rightarrow> config \<Rightarrow> 's world
     \<Rightarrow> (js_error + string) \<times> 's world" where
  "ensureIndexed env url context finalConfig w =
     (case searchParamV env url of
        Inl e \<Rightarrow> (Inl e, w)
      | Inr None \<Rightarrow> (Inl (Error ''Invalid YouTube URL - no video ID found''), w)
      | Inr (Some videoId) \<Rightarrow>
          if videoId = [] then (Inl (Error ''Invalid YouTube URL - no video ID found''), w)
          else
            (case chatOpenAIInit env of
               Some e \<Rightarrow> (Inl (Error ''Primary LLM failed and no fallback configured.''), w)
             | None \<Rightarrow>
            (case embeddingsInit env of
               Some e \<Rightarrow> (Inl e, w)
             | None \<Rightarrow>
            (case pineconeInit env of
               Some e \<Rightarrow> (Inl e, w)
             | None \<Rightarrow>
            (case namespaceExists env (''yt-'' @ videoId) w of
               (exists, w1) \<Rightarrow>
                 if \<not> truthy exists
                 then (case ingest env finalConfig url videoId (''yt-'' @ videoId) context w1 of
                         (Some e, w2) \<Rightarrow> (Inl e, w2)
                       | (None, w2) \<Rightarrow> (Inr (''yt-'' @ videoId), w2))
                 else (Inr (''yt-'' @ videoId), w1))))))"

text \<open>
  \<^verbatim>\<open>askYoutube\<close>: everything up to and including the ingestion (\<open>ensureIndexed\<close>, which
  yields the namespace), then retrieval and composition.
\<close>

definition askYoutube ::
  "'s env \<Rightarrow> string \<Rightarrow> string \<Rightarrow> query_context \<Rightarrow> config \<Rightarrow> 's world
     \<Rightarrow> (js_error + answer) \<times> 's world" where
  "askYoutube env url q context finalConfig w =
     (case ensureIndexed env url context finalConfig w of
        (Inl e, w1) \<Rightarrow> (Inl e, w1)
      | (Inr namespace, w2) \<Rightarrow> retrieveAndCompose env finalConfig namespace q context w2)"

section \<open>The POST /ask-youtube handler\<close>

text \<open>
  The response: its status and what was written to it, a JSON object with one string
  member or raw text. The handler calls \<^verbatim>\<open>askYoutube\<close> without overrides, so with the
  defaults. Headers go out with the first write, so an error that comes before any
  fragment was written still answers 500.
\<close>

datatype res_body = JsonObject string string | RawText string

record response =
  statusCode :: nat
  written :: "res_body list"

definition missingFields :: response where
  "missingFields = \<lparr>statusCode = 400, written = [JsonObject ''error'' ''Missing videoUrl or query'']\<rparr>"

definition serverError :: "js_error \<Rightarrow> response" where
  "serverError err =
     \<lparr>statusCode = 500,
      written = [JsonObject ''error'' (if message err \<noteq> [] then message err else ''Server error'')]\<rparr>"

definition handler :: "'s env \<Rightarrow> request_body \<Rightarrow> 's world \<Rightarrow> response \<times> 's world" where
  "handler env body w =
     (if \<not> truthyString (videoUrl body) \<or> \<not> truthyString (query body) then (missingFields, w)
      else
        (case askYoutube env (stringOf (videoUrl body)) (stringOf (query body))
                (query_context.truncate body) DEFAULT_CONFIG w of
           (Inl err, w1) \<Rightarrow> (serverError err, w1)
         | (Inr (Literal text), w1) \<Rightarrow>
             (\<lparr>statusCode = 200, written = [JsonObject ''answer'' text]\<rparr>, w1)
         | (Inr (Chain prompt), w1) \<Rightarrow>
             (case chainStream env w1 prompt (stringOf (query body)) of
                (chunks, None) \<Rightarrow>
                  (\<lparr>statusCode = 200, written = map RawText chunks\<rparr>,
                   logEvent (ModelStream prompt (stringOf (query body))) w1)
              | (chunks, Some err) \<Rightarrow>
                  (if chunks = [] then serverError err
                   else \<lparr>statusCode = 200,
                         written = map RawText chunks @
                           [RawText (newline @ newline @ ''Error: '' @ message err)]\<rparr>,
                   logEvent (ModelStream prompt (stringOf (query body))) w1))))"

section \<open>A scripted environment\<close>

text \<open>
  A concrete set of collaborators to run the program on: the store counts the documents it
  holds, the first two writes of a run fail and the third succeeds, the statistics list the
  video's namespace once something is stored, and retrieval finds one passage then.
\<close>

definition demoUrl :: string where
  "demoUrl = ''https://www.youtube.com/watch?v=dQw4w9WgXcQ''"

definition demoEnv :: "nat env" where
  "demoEnv = \<lparr>
     searchParamV = (\<lambda>u. if u = demoUrl then Inr (Some ''dQw4w9WgXcQ'')
                         else if u = ''https://www.youtube.com/watch'' then Inr None
                         else Inl (Thrown ''TypeError'' ''Invalid URL'')),
     chatOpenAIInit = None,
     embeddingsInit = None,
     pineconeInit = None,
     dateNow = (\<lambda>w. 1700000000000 + int (length (trace w))),
     describeIndexStats = (\<lambda>w. Inr \<lparr>namespaces =
        Some (if store w = 0 then Map.empty else [''yt-dQw4w9WgXcQ'' \<mapsto> store w])\<rparr>),
     loaderLoad = (\<lambda>w u. Inl (Error ''No captions'')),
     splitText = (\<lambda>size overlap separators text. Inr [text]),
     addDocuments = (\<lambda>w namespace documents.
        if length (filter isWrite (trace w)) < 2
        then (Some (Thrown ''PineconeConnectionError'' ''upsert failed''), store w)
        else (None, store w + length documents)),
     retrieverInvoke = (\<lambda>w namespace q k.
        Inr (if store w = 0 then []
             else [\<lparr>pageContent = ''Never gonna give you up.'', metadata = OtherMeta\<rparr>])),
     promptFromMessages = (\<lambda>prompt. None),
     chainStream = (\<lambda>w prompt q. ([''It is a song.''], None)) \<rparr>"

definition emptyWorld :: "nat world" where
  "emptyWorld = \<lparr>embeddingCache = Map.empty, store = 0, trace = []\<rparr>"

definition demoContext :: query_context where
  "demoContext = \<lparr>
     title = Some ''Rick Astley - Never Gonna Give You Up'',
     description = Some ''The official video'',
     timestamp = Some 10,
     transcript = Some ''Never gonna give you up. Never gonna let you down.'' \<rparr>"

definition emptyQueryBody :: request_body where
  "emptyQueryBody = \<lparr>title = None, description = None, timestamp = None, transcript = None,
     videoUrl = Some demoUrl, query = Some ''''\<rparr>"

text \<open>
  Variations: a statistics query that throws, and states whose cache record for the video
  is expired or fresh on the scripted clock.
\<close>

definition failingStatsEnv :: "nat env" where
  "failingStatsEnv = demoEnv\<lparr>describeIndexStats := (\<lambda>w. Inl (Error ''Service unavailable''))\<rparr>"

definition staleWorld :: "nat world" where
  "staleWorld = \<lparr>embeddingCache = [''yt-dQw4w9WgXcQ'' \<mapsto> 1600000000000], store = 1, trace = []\<rparr>"

definition freshWorld :: "nat world" where
  "freshWorld = \<lparr>embeddingCache = [''yt-dQw4w9WgXcQ'' \<mapsto> 1699999999000], store = 1, trace = []\<rparr>"

text \<open>
  The retry policy in the spec's words, to compare the loop with: the events of a run of
  failed attempts, the first of them the \<open>(n + 1)\<close>-th attempt. Each is a write that
  failed with an error, followed by a wait of \<open>retryDelay\<close> times the number of the attempt.
\<close>

fun failedAttempts ::
  "config \<Rightarrow> string \<Rightarrow> document list \<Rightarrow> nat \<Rightarrow> js_error list \<Rightarrow> event list" where
  "failedAttempts finalConfig namespace documents n [] = []"
| "failedAttempts finalConfig namespace documents n (e # es) =
     [AddDocuments namespace documents (Some e), Sleep (retryDelay finalConfig * int (Suc n))]
     @ failedAttempts finalConfig namespace documents (Suc n) es"

text \<open>
  More fixtures: a chunk list to store, a store whose every write fails, and the states
  after one and after two failed attempts with their waits.
\<close>

definition demoNamespace :: string where
  "demoNamespace = ''yt-dQw4w9WgXcQ''"

definition demoDocuments :: "document list" where
  "demoDocuments = [\<lparr>pageContent = ''Never gonna give you up.'',
                     metadata = ChunkMeta demoUrl ''dQw4w9WgXcQ'' 0 1700000000000\<rparr>]"

definition upsertFailed :: js_error where
  "upsertFailed = Thrown ''PineconeConnectionError'' ''upsert failed''"

definition alwaysFailingEnv :: "nat env" where
  "alwaysFailingEnv =
     demoEnv\<lparr>addDocuments := (\<lambda>w namespace documents. (Some upsertFailed, store w))\<rparr>"

definition afterFirstFailure :: "nat world" where
  "afterFirstFailure = \<lparr>embeddingCache = Map.empty, store = 0,
     trace = [AddDocuments demoNamespace demoDocuments (Some upsertFailed), Sleep 2000]\<rparr>"

definition afterSecondFailure :: "nat world" where
  "afterSecondFailure = \<lparr>embeddingCache = Map.empty, store = 0,
     trace = [AddDocuments demoNamespace demoDocuments (Some upsertFailed), Sleep 2000,
              AddDocuments demoNamespace demoDocuments (Some upsertFailed), Sleep 4000]\<rparr>"


definition demoBody :: request_body where
  "demoBody = \<lparr>
     title = Some ''Rick Astley - Never Gonna Give You Up'',
     description = Some ''The official video'',
     timestamp = Some 10,
     transcript = Some ''Never gonna give you up. Never gonna let you down.'',
     videoUrl = Some demoUrl,
     query = Some ''What is this video about?'' \<rparr>"

definition startContext :: query_context where
  "startContext = \<lparr>
     title = Some ''Rick Astley - Never Gonna Give You Up'',
     description = Some ''The official video'',
     timestamp = Some 0,
     transcript = None \<rparr>"

definition midContext :: query_context where
  "midContext = \<lparr>
     title = Some ''Rick Astley - Never Gonna Give You Up'',
     description = Some ''The official video'',
     timestamp = Some (127 / 10),
     transcript = None \<rparr>"

definition demoResults :: "document list" where
  "demoResults = [\<lparr>pageContent = ''Never gonna give you up.'', metadata = OtherMeta\<rparr>,
                  \<lparr>pageContent = ''Never gonna let you down.'', metadata = OtherMeta\<rparr>]"

definition demoChunks :: "document list" where
  "demoChunks = [\<lparr>pageContent = ''Never gonna give you up. Never gonna let you down.'',
     metadata = ChunkMeta demoUrl ''dQw4w9WgXcQ'' 0 1700000000002\<rparr>]"

section \<open>The request check of the handler\<close>

lemma handler_missing:
  "videoUrl body = None \<or> query body = None \<Longrightarrow> handler env body w = (missingFields, w)"
  by (auto simp: handler_def)

text \<open>
  Claim C10. The check \<^verbatim>\<open>!videoUrl || !query\<close> tests truthiness: a request whose
  \<open>videoUrl\<close> or \<open>query\<close> is the empty string gets the 400 response
  \<^verbatim>\<open>{ error: "Missing videoUrl or query" }\<close>, the very response of a request that lacks the
  field, and the state is untouched: \<^verbatim>\<open>askYoutube\<close> has not run and nothing was logged.
\<close>

theorem handler_rejects_empty_string:
  assumes "videoUrl body = Some [] \<or> query body = Some []"
  shows "handler env body w =
           (\<lparr>statusCode = 400, written = [JsonObject ''error'' ''Missing videoUrl or query'']\<rparr>, w)
         \<and> handler env body w = handler env (body\<lparr>videoUrl := None\<rparr>) w
         \<and> handler env body w = handler env (body\<lparr>query := None\<rparr>) w"
  using assms by (auto simp: handler_def missingFields_def)

theorem handler_rejects_empty_string_witness:
  "query emptyQueryBody = Some [] \<and>
   handler demoEnv emptyQueryBody emptyWorld =
     (\<lparr>statusCode = 400, written = [JsonObject ''error'' ''Missing videoUrl or query'']\<rparr>, emptyWorld)"
proof -
  have h: "videoUrl emptyQueryBody = Some [] \<or> query emptyQueryBody = Some []"
    by (simp add: emptyQueryBody_def)
  from handler_rejects_empty_string [OF h, of demoEnv emptyWorld] h show ?thesis
    by (simp add: emptyQueryBody_def)
qed

section \<open>Resolving the video\<close>

lemma ensureIndexed_bad_url:
  "searchParamV env url = Inl e \<Longrightarrow> ensureIndexed env url context finalConfig w = (Inl e, w)"
  by (simp add: ensureIndexed_def)

text \<open>
  Claim C7. When the URL has no \<open>v\<close> parameter (or an empty one), \<^verbatim>\<open>askYoutube\<close> throws
  \<^verbatim>\<open>Invalid YouTube URL - no video ID found\<close> and leaves the state as it found it: no event
  was logged, so no collaborator was called, and cache and store are unchanged.
\<close>

theorem askYoutube_no_video_id:
  assumes "searchParamV env url = Inr None \<or> searchParamV env url = Inr (Some [])"
  shows "askYoutube env url q context finalConfig w =
           (Inl (Error ''Invalid YouTube URL - no video ID found''), w)"
  using assms by (auto simp: askYoutube_def ensureIndexed_def)

theorem askYoutube_no_video_id_witness:
  "searchParamV demoEnv ''https://www.youtube.com/watch'' = Inr None \<and>
   askYoutube demoEnv ''https://www.youtube.com/watch'' ''What is this video about?'' demoContext
       DEFAULT_CONFIG emptyWorld =
     (Inl (Error ''Invalid YouTube URL - no video ID found''), emptyWorld)"
proof -
  have h: "searchParamV demoEnv ''https://www.youtube.com/watch'' = Inr None"
    by (simp add: demoEnv_def demoUrl_def)
  from askYoutube_no_video_id [of demoEnv, OF disjI1, OF h] h show ?thesis
    by simp
qed

section \<open>The namespace check\<close>

lemma cacheFresh_iff:
  "cacheFresh env namespace w \<longleftrightarrow>
     (\<exists>cachedAt. embeddingCache w namespace = Some cachedAt \<and> dateNow env w - cachedAt < 86400000)"
  by (simp add: cacheFresh_def DEFAULT_CONFIG_def split: option.splits)

lemma namespaceExists_fresh:
  "cacheFresh env namespace w \<Longrightarrow> namespaceExists env namespace w = (JSBool True, w)"
  by (simp add: namespaceExists_def)

lemma namespaceExists_store [simp]:
  "store (snd (namespaceExists env namespace w)) = store w"
  by (simp add: namespaceExists_def logEvent_def Let_def split: sum.splits option.splits)

lemma namespaceExists_trace:
  "trace (snd (namespaceExists env namespace w)) =
     (if cacheFresh env namespace w then trace w else trace w @ [DescribeIndexStats])"
  by (simp add: namespaceExists_def logEvent_def Let_def split: sum.splits option.splits)

text \<open>
  Whenever the check comes back falsy (\<^verbatim>\<open>false\<close> or \<^verbatim>\<open>undefined\<close>) the cache is as it
  was: a record is written on a confirmed namespace only.
\<close>

lemma namespaceExists_falsy_keeps_cache:
  "\<not> truthy (fst (namespaceExists env namespace w)) \<Longrightarrow>
     embeddingCache (snd (namespaceExists env namespace w)) = embeddingCache w"
  by (simp add: namespaceExists_def logEvent_def Let_def split: sum.splits option.splits if_splits)

text \<open>
  Claim C5. With a cache record younger than the 24 hours (\<open>cacheFresh_iff\<close>) the check
  answers \<^verbatim>\<open>true\<close> and does nothing else: the state, log included, is unchanged, so the
  store was not queried. Otherwise it queries the statistics, once. If the namespace is
  present, the record is set to the clock reading taken after the query and the answer is
  \<^verbatim>\<open>true\<close>; else the answer is \<^verbatim>\<open>false\<close> and the cache is as it was. The statistics, when
  the query answers, carry their \<^verbatim>\<open>namespaces\<close> table, as the Pinecone client's always do.
\<close>

theorem namespaceExists_cache_or_statistics:
  assumes "\<And>stats. describeIndexStats env w = Inr stats \<Longrightarrow> namespaces stats \<noteq> None"
  shows "(cacheFresh env namespace w \<longrightarrow> namespaceExists env namespace w = (JSBool True, w))
   \<and> (\<not> cacheFresh env namespace w \<longrightarrow> namespacePresent env namespace w \<longrightarrow>
        namespaceExists env namespace w =
          (JSBool True,
           (logEvent DescribeIndexStats w)\<lparr>embeddingCache :=
              (embeddingCache w)(namespace \<mapsto> dateNow env (logEvent DescribeIndexStats w))\<rparr>))
   \<and> (\<not> cacheFresh env namespace w \<longrightarrow> \<not> namespacePresent env namespace w \<longrightarrow>
        namespaceExists env namespace w = (JSBool False, logEvent DescribeIndexStats w))"
  using assms
  by (auto simp: namespaceExists_def namespacePresent_def logEvent_def Let_def
      split: sum.splits option.splits)

theorem namespaceExists_cache_or_statistics_witness:
  "describeIndexStats demoEnv freshWorld = Inr \<lparr>namespaces = Some [''yt-dQw4w9WgXcQ'' \<mapsto> 1]\<rparr> \<and>
   cacheFresh demoEnv ''yt-dQw4w9WgXcQ'' freshWorld \<and>
   namespaceExists demoEnv ''yt-dQw4w9WgXcQ'' freshWorld = (JSBool True, freshWorld) \<and>
   describeIndexStats demoEnv staleWorld = Inr \<lparr>namespaces = Some [''yt-dQw4w9WgXcQ'' \<mapsto> 1]\<rparr> \<and>
   \<not> cacheFresh demoEnv ''yt-dQw4w9WgXcQ'' staleWorld \<and>
   namespacePresent demoEnv ''yt-dQw4w9WgXcQ'' staleWorld \<and>
   namespaceExists demoEnv ''yt-dQw4w9WgXcQ'' staleWorld =
     (JSBool True,
      (logEvent DescribeIndexStats staleWorld)\<lparr>embeddingCache :=
         (embeddingCache staleWorld)(''yt-dQw4w9WgXcQ'' \<mapsto> 1700000000001)\<rparr>) \<and>
   describeIndexStats demoEnv emptyWorld = Inr \<lparr>namespaces = Some Map.empty\<rparr> \<and>
   \<not> cacheFresh demoEnv ''yt-dQw4w9WgXcQ'' emptyWorld \<and>
   \<not> namespacePresent demoEnv ''yt-dQw4w9WgXcQ'' emptyWorld \<and>
   namespaceExists demoEnv ''yt-dQw4w9WgXcQ'' emptyWorld =
     (JSBool False, logEvent DescribeIndexStats emptyWorld)"
proof -
  have df: "describeIndexStats demoEnv freshWorld =
              Inr \<lparr>namespaces = Some [''yt-dQw4w9WgXcQ'' \<mapsto> 1]\<rparr>"
    by (simp add: demoEnv_def freshWorld_def)
  have ds: "describeIndexStats demoEnv staleWorld =
              Inr \<lparr>namespaces = Some [''yt-dQw4w9WgXcQ'' \<mapsto> 1]\<rparr>"
    by (simp add: demoEnv_def staleWorld_def)
  have de: "describeIndexStats demoEnv emptyWorld = Inr \<lparr>namespaces = Some Map.empty\<rparr>"
    by (simp add: demoEnv_def emptyWorld_def)
  have wf: "describeIndexStats demoEnv v = Inr stats \<Longrightarrow> namespaces stats \<noteq> None" for v stats
    by (auto simp: demoEnv_def)
  have f: "cacheFresh demoEnv ''yt-dQw4w9WgXcQ'' freshWorld"
    by (simp add: cacheFresh_def demoEnv_def freshWorld_def DEFAULT_CONFIG_def)
  have s: "\<not> cacheFresh demoEnv ''yt-dQw4w9WgXcQ'' staleWorld"
    by (simp add: cacheFresh_def demoEnv_def staleWorld_def DEFAULT_CONFIG_def)
  have e: "\<not> cacheFresh demoEnv ''yt-dQw4w9WgXcQ'' emptyWorld"
    by (simp add: cacheFresh_def emptyWorld_def)
  have ps: "namespacePresent demoEnv ''yt-dQw4w9WgXcQ'' staleWorld"
    by (simp add: namespacePresent_def ds)
  have pe: "\<not> namespacePresent demoEnv ''yt-dQw4w9WgXcQ'' emptyWorld"
    by (simp add: namespacePresent_def de)
  have n: "dateNow demoEnv (logEvent DescribeIndexStats staleWorld) = 1700000000001"
    by (simp add: demoEnv_def staleWorld_def logEvent_def)
  from namespaceExists_cache_or_statistics [of demoEnv freshWorld "''yt-dQw4w9WgXcQ''", OF wf]
       namespaceExists_cache_or_statistics [of demoEnv staleWorld "''yt-dQw4w9WgXcQ''", OF wf]
       namespaceExists_cache_or_statistics [of demoEnv emptyWorld "''yt-dQw4w9WgXcQ''", OF wf]
       df ds de f s e ps pe n
  show ?thesis by simp
qed

text \<open>
  Claim C6. When the record is not fresh and the statistics query throws, the check
  answers \<^verbatim>\<open>false\<close>: the error is caught, the query is logged and cache and store stay as
  they were. \<^verbatim>\<open>askYoutube\<close> then goes on into the ingestion, as for a video not yet
  indexed.
\<close>

theorem namespaceExists_fails_soft:
  assumes "\<not> cacheFresh env namespace w" and "describeIndexStats env w = Inl e"
  shows "namespaceExists env namespace w = (JSBool False, logEvent DescribeIndexStats w)
    \<and> (searchParamV env url = Inr (Some videoId) \<longrightarrow> videoId \<noteq> [] \<longrightarrow>
         namespace = ''yt-'' @ videoId \<longrightarrow>
         chatOpenAIInit env = None \<longrightarrow> embeddingsInit env = None \<longrightarrow> pineconeInit env = None \<longrightarrow>
         ensureIndexed env url context finalConfig w =
           (case ingest env finalConfig url videoId namespace context (logEvent DescribeIndexStats w) of
              (Some err, w2) \<Rightarrow> (Inl err, w2)
            | (None, w2) \<Rightarrow> (Inr namespace, w2)))"
  using assms
  by (auto simp: namespaceExists_def ensureIndexed_def Let_def split: prod.splits option.splits)

theorem namespaceExists_fails_soft_witness:
  "\<not> cacheFresh failingStatsEnv ''yt-dQw4w9WgXcQ'' staleWorld \<and>
   describeIndexStats failingStatsEnv staleWorld = Inl (Error ''Service unavailable'') \<and>
   namespaceExists failingStatsEnv ''yt-dQw4w9WgXcQ'' staleWorld =
     (JSBool False, logEvent DescribeIndexStats staleWorld)"
proof -
  have h1: "\<not> cacheFresh failingStatsEnv ''yt-dQw4w9WgXcQ'' staleWorld"
    by (simp add: cacheFresh_def failingStatsEnv_def demoEnv_def staleWorld_def DEFAULT_CONFIG_def)
  have h2: "describeIndexStats failingStatsEnv staleWorld = Inl (Error ''Service unavailable'')"
    by (simp add: failingStatsEnv_def)
  from namespaceExists_fails_soft [OF h1 h2] h1 h2 show ?thesis
    by simp
qed

text \<open>
  Claim C9. The check always ends with a value, never with an error, and the value is a
  boolean; this holds for a store whose query throws as well. Whenever the value is
  \<^verbatim>\<open>false\<close>, because the namespace is absent or because the query failed, the cache is as
  it was before the check. The statistics, when the query answers, carry their
  \<^verbatim>\<open>namespaces\<close> table.
\<close>

theorem namespaceExists_total:
  assumes "\<And>stats. describeIndexStats env w = Inr stats \<Longrightarrow> namespaces stats \<noteq> None"
  shows "(\<exists>b. fst (namespaceExists env namespace w) = JSBool b)
   \<and> (fst (namespaceExists env namespace w) = JSBool False \<longrightarrow>
        embeddingCache (snd (namespaceExists env namespace w)) = embeddingCache w)
   \<and> (\<not> cacheFresh env namespace w \<longrightarrow> describeIndexStats env w = Inl e \<longrightarrow>
        namespaceExists env namespace w = (JSBool False, logEvent DescribeIndexStats w))"
  using assms
  by (auto simp: namespaceExists_def logEvent_def Let_def split: sum.splits option.splits)

theorem namespaceExists_total_witness:
  "describeIndexStats demoEnv emptyWorld = Inr \<lparr>namespaces = Some Map.empty\<rparr> \<and>
   fst (namespaceExists demoEnv ''yt-dQw4w9WgXcQ'' emptyWorld) = JSBool False \<and>
   embeddingCache (snd (namespaceExists demoEnv ''yt-dQw4w9WgXcQ'' emptyWorld)) =
     embeddingCache emptyWorld \<and>
   \<not> cacheFresh failingStatsEnv ''yt-dQw4w9WgXcQ'' staleWorld \<and>
   describeIndexStats failingStatsEnv staleWorld = Inl (Error ''Service unavailable'') \<and>
   namespaceExists failingStatsEnv ''yt-dQw4w9WgXcQ'' staleWorld =
     (JSBool False, logEvent DescribeIndexStats staleWorld) \<and>
   embeddingCache (snd (namespaceExists failingStatsEnv ''yt-dQw4w9WgXcQ'' staleWorld)) =
     embeddingCache staleWorld"
proof -
  have de: "describeIndexStats demoEnv emptyWorld = Inr \<lparr>namespaces = Some Map.empty\<rparr>"
    by (simp add: demoEnv_def emptyWorld_def)
  have wf1: "describeIndexStats demoEnv emptyWorld = Inr stats \<Longrightarrow> namespaces stats \<noteq> None" for stats
    by (auto simp: demoEnv_def)
  have df: "describeIndexStats failingStatsEnv staleWorld = Inl (Error ''Service unavailable'')"
    by (simp add: failingStatsEnv_def)
  have wf2: "describeIndexStats failingStatsEnv staleWorld = Inr stats \<Longrightarrow> namespaces stats \<noteq> None"
    for stats by (simp add: failingStatsEnv_def)
  have s: "\<not> cacheFresh failingStatsEnv ''yt-dQw4w9WgXcQ'' staleWorld"
    by (simp add: cacheFresh_def failingStatsEnv_def demoEnv_def staleWorld_def DEFAULT_CONFIG_def)
  have v: "fst (namespaceExists demoEnv ''yt-dQw4w9WgXcQ'' emptyWorld) = JSBool False"
    by (simp add: namespaceExists_def cacheFresh_def emptyWorld_def de [unfolded emptyWorld_def])
  from namespaceExists_total [of demoEnv emptyWorld "''yt-dQw4w9WgXcQ''", OF wf1]
       namespaceExists_total [of failingStatsEnv staleWorld "''yt-dQw4w9WgXcQ''"
         "Error ''Service unavailable''", OF wf2]
       de df s v
  show ?thesis by (simp add: logEvent_def)
qed

section \<open>Storing with retries\<close>

lemma storeWithRetries_shape:
  "attempts < maxRetries cfg \<Longrightarrow>
   (case storeWithRetries env cfg ns docs attempts w of
      (None, w') \<Rightarrow>
        \<exists>errs t. attempts + length errs < maxRetries cfg \<and>
          trace w' = trace w @ failedAttempts cfg ns docs attempts errs
                       @ [AddDocuments ns docs None, Sleep (retryDelay cfg)] \<and>
          embeddingCache w' = (embeddingCache w)(ns \<mapsto> t)
    | (Some e, w') \<Rightarrow>
        \<exists>errs. Suc (attempts + length errs) = maxRetries cfg \<and>
          trace w' = trace w @ failedAttempts cfg ns docs attempts errs
                       @ [AddDocuments ns docs (Some e)] \<and>
          embeddingCache w' = embeddingCache w)"
proof (induction env cfg ns docs attempts w rule: storeWithRetries.induct)
  case (1 env cfg ns docs attempts w)
  obtain outcome store' where a: "addDocuments env w ns docs = (outcome, store')"
    by (cases "addDocuments env w ns docs")
  show ?case
  proof (cases outcome)
    case None
    with a "1.prems" storeWithRetries.simps [of env cfg ns docs attempts w] have
      "storeWithRetries env cfg ns docs attempts w =
         (None, logEvent (Sleep (retryDelay cfg))
            ((logEvent (AddDocuments ns docs None) (w\<lparr>store := store'\<rparr>))
               \<lparr>embeddingCache := (embeddingCache w)(ns \<mapsto>
                  dateNow env (logEvent (AddDocuments ns docs None) (w\<lparr>store := store'\<rparr>)))\<rparr>))"
      by (simp add: Let_def logEvent_def)
    with "1.prems" show ?thesis
      by (auto simp: logEvent_def intro!: exI [of _ "[]"])
  next
    case (Some e)
    show ?thesis
    proof (cases "Suc attempts = maxRetries cfg")
      case True
      with a Some "1.prems" storeWithRetries.simps [of env cfg ns docs attempts w] have
        "storeWithRetries env cfg ns docs attempts w =
           (Some e, logEvent (AddDocuments ns docs (Some e)) (w\<lparr>store := store'\<rparr>))"
        by (simp add: Let_def)
      with True show ?thesis
        by (auto simp: logEvent_def intro!: exI [of _ "[]"])
    next
      case False
      let ?w1 = "logEvent (AddDocuments ns docs (Some e)) (w\<lparr>store := store'\<rparr>)"
      let ?w2 = "logEvent (Sleep (retryDelay cfg * int (Suc attempts))) ?w1"
      from a Some "1.prems" False storeWithRetries.simps [of env cfg ns docs attempts w] have unfold:
        "storeWithRetries env cfg ns docs attempts w = storeWithRetries env cfg ns docs (Suc attempts) ?w2"
        by (simp add: Let_def)
      from "1.prems" False have lt: "Suc attempts < maxRetries cfg" by simp
      have IH: "case storeWithRetries env cfg ns docs (Suc attempts) ?w2 of
          (None, w') \<Rightarrow>
            \<exists>errs t. Suc attempts + length errs < maxRetries cfg \<and>
              trace w' = trace ?w2 @ failedAttempts cfg ns docs (Suc attempts) errs
                           @ [AddDocuments ns docs None, Sleep (retryDelay cfg)] \<and>
              embeddingCache w' = (embeddingCache ?w2)(ns \<mapsto> t)
        | (Some e, w') \<Rightarrow>
            \<exists>errs. Suc (Suc attempts + length errs) = maxRetries cfg \<and>
              trace w' = trace ?w2 @ failedAttempts cfg ns docs (Suc attempts) errs
                           @ [AddDocuments ns docs (Some e)] \<and>
              embeddingCache w' = embeddingCache ?w2"
        using "1.IH" [OF "1.prems" a [symmetric] Some refl False lt] .
      obtain r w' where res: "storeWithRetries env cfg ns docs (Suc attempts) ?w2 = (r, w')"
        by (cases "storeWithRetries env cfg ns docs (Suc attempts) ?w2")
      show ?thesis
      proof (cases r)
        case None
        with IH res obtain errs t where
          "Suc attempts + length errs < maxRetries cfg"
          "trace w' = trace ?w2 @ failedAttempts cfg ns docs (Suc attempts) errs
                           @ [AddDocuments ns docs None, Sleep (retryDelay cfg)]"
          "embeddingCache w' = (embeddingCache ?w2)(ns \<mapsto> t)"
          by auto
        then have "attempts + length (e # errs) < maxRetries cfg \<and>
          trace w' = trace w @ failedAttempts cfg ns docs attempts (e # errs)
                       @ [AddDocuments ns docs None, Sleep (retryDelay cfg)] \<and>
          embeddingCache w' = (embeddingCache w)(ns \<mapsto> t)"
          by (simp add: logEvent_def)
        moreover from unfold res None
        have "storeWithRetries env cfg ns docs attempts w = (None, w')" by simp
        ultimately show ?thesis
          by (simp only: prod.case option.case) blast
      next
        case (Some e')
        with IH res obtain errs where
          "Suc (Suc attempts + length errs) = maxRetries cfg"
          "trace w' = trace ?w2 @ failedAttempts cfg ns docs (Suc attempts) errs
                           @ [AddDocuments ns docs (Some e')]"
          "embeddingCache w' = embeddingCache ?w2"
          by auto
        then have "Suc (attempts + length (e # errs)) = maxRetries cfg \<and>
          trace w' = trace w @ failedAttempts cfg ns docs attempts (e # errs)
                       @ [AddDocuments ns docs (Some e')] \<and>
          embeddingCache w' = embeddingCache w"
          by (simp add: logEvent_def)
        moreover from unfold res Some
        have "storeWithRetries env cfg ns docs attempts w = (Some e', w')" by simp
        ultimately show ?thesis
          by (simp only: prod.case option.case) blast
      qed
    qed
  qed
qed

lemma failedAttempts_two:
  "failedAttempts cfg ns docs 0 [] = []"
  "failedAttempts cfg ns docs 0 [e1] =
     [AddDocuments ns docs (Some e1), Sleep (retryDelay cfg * 1)]"
  "failedAttempts cfg ns docs 0 [e1, e2] =
     [AddDocuments ns docs (Some e1), Sleep (retryDelay cfg * 1),
      AddDocuments ns docs (Some e2), Sleep (retryDelay cfg * 2)]"
  by simp_all

lemma length_writes_failedAttempts:
  "length (filter isWrite (failedAttempts cfg ns docs n errs)) = length errs"
  by (induction errs arbitrary: n) auto

lemma no_model_call_failedAttempts [simp]:
  "filter isModelCall (failedAttempts cfg ns docs n errs) = []"
  by (induction errs arbitrary: n) auto

lemma storeWithRetries_writes_bound:
  assumes "maxRetries finalConfig = 3"
  shows "length (filter isWrite (drop (length (trace w))
           (trace (snd (storeWithRetries env finalConfig namespace documents 0 w))))) \<le> 3"
proof -
  from assms have lt: "0 < maxRetries finalConfig" by simp
  from storeWithRetries_shape [OF lt, where env = env and ns = namespace and docs = documents and w = w]
       assms
  show ?thesis
    by (cases "storeWithRetries env finalConfig namespace documents 0 w")
       (auto split: option.splits simp: length_writes_failedAttempts)
qed

lemma world_explicit:
  "w\<lparr>store := s, trace := t\<rparr> = \<lparr>embeddingCache = embeddingCache w, store = s, trace = t\<rparr>"
  "w\<lparr>store := s, trace := t, embeddingCache := c\<rparr> = \<lparr>embeddingCache = c, store = s, trace = t\<rparr>"
  "w\<lparr>store := s, trace := t, embeddingCache := c, trace := t'\<rparr> =
     \<lparr>embeddingCache = c, store = s, trace = t'\<rparr>"
  by (cases w, simp)+

text \<open>
  Claim C2. With \<open>maxRetries = 3\<close>, whatever the store answers, the loop writes at most
  three times, and its course follows the answers of \<^verbatim>\<open>addDocuments\<close>. \<open>wA\<close> is the state
  after a first write that failed with \<open>errA\<close> and the wait of \<open>retryDelay * 1\<close>, \<open>wB\<close> the
  state after a second write that failed with \<open>errB\<close> and the wait of \<open>retryDelay * 2\<close>; the
  second write is made in \<open>wA\<close>, the third in \<open>wB\<close>. If the first, second or third write
  succeeds, the loop reports success: the store is the one that write left, the
  namespace's cache record is the clock reading taken after it, and \<open>retryDelay\<close> is waited
  once more. If all three fail, the third error is the one thrown, nothing is waited
  after it, and the cache is as before the loop.
\<close>

theorem storeWithRetries_three_attempts:
  assumes "maxRetries finalConfig = 3"
      and "wA = \<lparr>embeddingCache = embeddingCache w, store = sA,
                 trace = trace w @ [AddDocuments namespace documents (Some errA),
                                    Sleep (retryDelay finalConfig * 1)]\<rparr>"
      and "wB = \<lparr>embeddingCache = embeddingCache w, store = sB,
                 trace = trace wA @ [AddDocuments namespace documents (Some errB),
                                     Sleep (retryDelay finalConfig * 2)]\<rparr>"
  shows
    "(addDocuments env w namespace documents = (None, sA) \<longrightarrow>
        storeWithRetries env finalConfig namespace documents 0 w =
          (None,
           \<lparr>embeddingCache = (embeddingCache w)(namespace \<mapsto>
               dateNow env \<lparr>embeddingCache = embeddingCache w, store = sA,
                            trace = trace w @ [AddDocuments namespace documents None]\<rparr>),
            store = sA,
            trace = trace w @ [AddDocuments namespace documents None,
                               Sleep (retryDelay finalConfig)]\<rparr>))
   \<and> (addDocuments env w namespace documents = (Some errA, sA) \<longrightarrow>
      addDocuments env wA namespace documents = (None, sB) \<longrightarrow>
        storeWithRetries env finalConfig namespace documents 0 w =
          (None,
           \<lparr>embeddingCache = (embeddingCache w)(namespace \<mapsto>
               dateNow env \<lparr>embeddingCache = embeddingCache w, store = sB,
                            trace = trace wA @ [AddDocuments namespace documents None]\<rparr>),
            store = sB,
            trace = trace wA @ [AddDocuments namespace documents None,
                                Sleep (retryDelay finalConfig)]\<rparr>))
   \<and> (addDocuments env w namespace documents = (Some errA, sA) \<longrightarrow>
      addDocuments env wA namespace documents = (Some errB, sB) \<longrightarrow>
      addDocuments env wB namespace documents = (None, sC) \<longrightarrow>
        storeWithRetries env finalConfig namespace documents 0 w =
          (None,
           \<lparr>embeddingCache = (embeddingCache w)(namespace \<mapsto>
               dateNow env \<lparr>embeddingCache = embeddingCache w, store = sC,
                            trace = trace wB @ [AddDocuments namespace documents None]\<rparr>),
            store = sC,
            trace = trace wB @ [AddDocuments namespace documents None,
                                Sleep (retryDelay finalConfig)]\<rparr>))
   \<and> (addDocuments env w namespace documents = (Some errA, sA) \<longrightarrow>
      addDocuments env wA namespace documents = (Some errB, sB) \<longrightarrow>
      addDocuments env wB namespace documents = (Some errC, sC) \<longrightarrow>
        storeWithRetries env finalConfig namespace documents 0 w =
          (Some errC,
           \<lparr>embeddingCache = embeddingCache w, store = sC,
            trace = trace wB @ [AddDocuments namespace documents (Some errC)]\<rparr>))
   \<and> length (filter isWrite (drop (length (trace w))
         (trace (snd (storeWithRetries env finalConfig namespace documents 0 w))))) \<le> 3"
proof -
  have step1: "addDocuments env w namespace documents = (Some errA, sA) \<Longrightarrow>
      storeWithRetries env finalConfig namespace documents 0 w =
      storeWithRetries env finalConfig namespace documents 1 wA"
    using assms(1,2)
    by (subst storeWithRetries.simps) (simp add: Let_def logEvent_def world_explicit)
  have step2: "addDocuments env wA namespace documents = (Some errB, sB) \<Longrightarrow>
      storeWithRetries env finalConfig namespace documents 1 wA =
      storeWithRetries env finalConfig namespace documents 2 wB"
    using assms
    by (subst storeWithRetries.simps) (simp add: Let_def logEvent_def numeral_2_eq_2 world_explicit)
  have ok: "addDocuments env v namespace documents = (None, s) \<Longrightarrow> n < 3 \<Longrightarrow>
      storeWithRetries env finalConfig namespace documents n v =
        (None,
         \<lparr>embeddingCache = (embeddingCache v)(namespace \<mapsto>
             dateNow env \<lparr>embeddingCache = embeddingCache v, store = s,
                          trace = trace v @ [AddDocuments namespace documents None]\<rparr>),
          store = s,
          trace = trace v @ [AddDocuments namespace documents None,
                             Sleep (retryDelay finalConfig)]\<rparr>)" for v s n
    using assms(1)
    by (subst storeWithRetries.simps) (simp add: Let_def logEvent_def world_explicit)
  have last: "addDocuments env wB namespace documents = (Some errC, sC) \<Longrightarrow>
      storeWithRetries env finalConfig namespace documents 2 wB =
        (Some errC,
         \<lparr>embeddingCache = embeddingCache w, store = sC,
          trace = trace wB @ [AddDocuments namespace documents (Some errC)]\<rparr>)"
    using assms
    by (subst storeWithRetries.simps) (simp add: Let_def logEvent_def world_explicit)
  have c1: "embeddingCache wA = embeddingCache w" "embeddingCache wB = embeddingCache w"
    using assms by simp_all
  from step1 step2 last ok [of w sA 0] ok [of wA sB 1] ok [of wB sC 2] c1
       storeWithRetries_writes_bound [OF assms(1), of w env namespace documents]
  show ?thesis by simp
qed

theorem storeWithRetries_three_attempts_witness:
  "maxRetries DEFAULT_CONFIG = 3 \<and> retryDelay DEFAULT_CONFIG = 2000 \<and>
   addDocuments demoEnv emptyWorld demoNamespace demoDocuments = (Some upsertFailed, 0) \<and>
   addDocuments demoEnv afterFirstFailure demoNamespace demoDocuments = (Some upsertFailed, 0) \<and>
   addDocuments demoEnv afterSecondFailure demoNamespace demoDocuments = (None, 1) \<and>
   storeWithRetries demoEnv DEFAULT_CONFIG demoNamespace demoDocuments 0 emptyWorld =
     (None, \<lparr>embeddingCache = [demoNamespace \<mapsto> 1700000000005], store = 1,
             trace = [AddDocuments demoNamespace demoDocuments (Some upsertFailed), Sleep 2000,
                      AddDocuments demoNamespace demoDocuments (Some upsertFailed), Sleep 4000,
                      AddDocuments demoNamespace demoDocuments None, Sleep 2000]\<rparr>) \<and>
   addDocuments alwaysFailingEnv emptyWorld demoNamespace demoDocuments = (Some upsertFailed, 0) \<and>
   addDocuments alwaysFailingEnv afterFirstFailure demoNamespace demoDocuments = (Some upsertFailed, 0) \<and>
   addDocuments alwaysFailingEnv afterSecondFailure demoNamespace demoDocuments = (Some upsertFailed, 0) \<and>
   storeWithRetries alwaysFailingEnv DEFAULT_CONFIG demoNamespace demoDocuments 0 emptyWorld =
     (Some upsertFailed, \<lparr>embeddingCache = Map.empty, store = 0,
             trace = [AddDocuments demoNamespace demoDocuments (Some upsertFailed), Sleep 2000,
                      AddDocuments demoNamespace demoDocuments (Some upsertFailed), Sleep 4000,
                      AddDocuments demoNamespace demoDocuments (Some upsertFailed)]\<rparr>)"
proof -
  have h: "maxRetries DEFAULT_CONFIG = 3" and d: "retryDelay DEFAULT_CONFIG = 2000"
    by (simp_all add: DEFAULT_CONFIG_def)
  have w1: "afterFirstFailure = \<lparr>embeddingCache = embeddingCache emptyWorld, store = 0,
      trace = trace emptyWorld @ [AddDocuments demoNamespace demoDocuments (Some upsertFailed),
                                  Sleep (retryDelay DEFAULT_CONFIG * 1)]\<rparr>"
    by (simp add: afterFirstFailure_def emptyWorld_def d)
  have w2: "afterSecondFailure = \<lparr>embeddingCache = embeddingCache emptyWorld, store = 0,
      trace = trace afterFirstFailure @ [AddDocuments demoNamespace demoDocuments (Some upsertFailed),
                                  Sleep (retryDelay DEFAULT_CONFIG * 2)]\<rparr>"
    by (simp add: afterSecondFailure_def afterFirstFailure_def emptyWorld_def d)
  have a: "addDocuments demoEnv emptyWorld demoNamespace demoDocuments = (Some upsertFailed, 0)"
    "addDocuments demoEnv afterFirstFailure demoNamespace demoDocuments = (Some upsertFailed, 0)"
    "addDocuments demoEnv afterSecondFailure demoNamespace demoDocuments = (None, 1)"
    by (simp_all add: demoEnv_def emptyWorld_def afterFirstFailure_def afterSecondFailure_def
        upsertFailed_def demoDocuments_def)
  have b: "addDocuments alwaysFailingEnv emptyWorld demoNamespace demoDocuments = (Some upsertFailed, 0)"
    "addDocuments alwaysFailingEnv afterFirstFailure demoNamespace demoDocuments = (Some upsertFailed, 0)"
    "addDocuments alwaysFailingEnv afterSecondFailure demoNamespace demoDocuments = (Some upsertFailed, 0)"
    by (simp_all add: alwaysFailingEnv_def emptyWorld_def afterFirstFailure_def afterSecondFailure_def)
  have n: "dateNow demoEnv \<lparr>embeddingCache = embeddingCache emptyWorld, store = 1,
      trace = trace afterSecondFailure @ [AddDocuments demoNamespace demoDocuments None]\<rparr> = 1700000000005"
    by (simp add: demoEnv_def afterSecondFailure_def)
  have t: "embeddingCache emptyWorld = Map.empty"
    "trace afterSecondFailure = [AddDocuments demoNamespace demoDocuments (Some upsertFailed), Sleep 2000,
              AddDocuments demoNamespace demoDocuments (Some upsertFailed), Sleep 4000]"
    by (simp_all add: emptyWorld_def afterSecondFailure_def)
  from storeWithRetries_three_attempts [OF h w1 w2, where env = demoEnv and sC = 1 and errC = upsertFailed]
       a n t d
  have r1: "storeWithRetries demoEnv DEFAULT_CONFIG demoNamespace demoDocuments 0 emptyWorld =
     (None, \<lparr>embeddingCache = [demoNamespace \<mapsto> 1700000000005], store = 1,
             trace = [AddDocuments demoNamespace demoDocuments (Some upsertFailed), Sleep 2000,
                      AddDocuments demoNamespace demoDocuments (Some upsertFailed), Sleep 4000,
                      AddDocuments demoNamespace demoDocuments None, Sleep 2000]\<rparr>)"
    by simp
  from storeWithRetries_three_attempts [OF h w1 w2, where env = alwaysFailingEnv and sC = 0 and errC = upsertFailed]
       b t
  have r2: "storeWithRetries alwaysFailingEnv DEFAULT_CONFIG demoNamespace demoDocuments 0 emptyWorld =
     (Some upsertFailed, \<lparr>embeddingCache = Map.empty, store = 0,
             trace = [AddDocuments demoNamespace demoDocuments (Some upsertFailed), Sleep 2000,
                      AddDocuments demoNamespace demoDocuments (Some upsertFailed), Sleep 4000,
                      AddDocuments demoNamespace demoDocuments (Some upsertFailed)]\<rparr>)"
    by simp
  from h d a b r1 r2 show ?thesis by simp
qed

section \<open>The language model is only called by the handler\<close>








section \<open>The cache short-circuit\<close>

text \<open>
  Claim C4. When the namespace check answers \<^verbatim>\<open>true\<close>, the request logs no call of the
  loader, of the splitter or of \<^verbatim>\<open>addDocuments\<close>, and the contents of the vector store at
  the end of the request are those at its start.
\<close>

theorem askYoutube_skips_ingestion:
  assumes "searchParamV env url = Inr (Some videoId)"
      and "truthy (fst (namespaceExists env (''yt-'' @ videoId) w))"
  shows "filter isIngestion (trace (snd (askYoutube env url q context finalConfig w))) =
           filter isIngestion (trace w)
       \<and> store (snd (askYoutube env url q context finalConfig w)) = store w"
proof -
  obtain ex w1 where n: "namespaceExists env (''yt-'' @ videoId) w = (ex, w1)"
    by (cases "namespaceExists env (''yt-'' @ videoId) w")
  then have w1: "w1 = snd (namespaceExists env (''yt-'' @ videoId) w)" by simp
  have t: "filter isIngestion (trace w1) = filter isIngestion (trace w)" "store w1 = store w"
    unfolding w1 by (simp_all add: namespaceExists_trace)
  from assms n t show ?thesis
    by (auto simp: askYoutube_def ensureIndexed_def retrieveAndCompose_def logEvent_def Let_def
        split: sum.splits option.splits)
qed

theorem askYoutube_skips_ingestion_witness:
  "searchParamV demoEnv demoUrl = Inr (Some ''dQw4w9WgXcQ'') \<and>
   truthy (fst (namespaceExists demoEnv (''yt-'' @ ''dQw4w9WgXcQ'') freshWorld)) \<and>
   filter isIngestion (trace (snd (askYoutube demoEnv demoUrl ''What is this video about?''
      demoContext DEFAULT_CONFIG freshWorld))) = [] \<and>
   store (snd (askYoutube demoEnv demoUrl ''What is this video about?''
      demoContext DEFAULT_CONFIG freshWorld)) = 1"
proof -
  have h1: "searchParamV demoEnv demoUrl = Inr (Some ''dQw4w9WgXcQ'')"
    by (simp add: demoEnv_def)
  have h2: "truthy (fst (namespaceExists demoEnv (''yt-'' @ ''dQw4w9WgXcQ'') freshWorld))"
    by (simp add: namespaceExists_def cacheFresh_def demoEnv_def freshWorld_def DEFAULT_CONFIG_def)
  have w: "trace freshWorld = []" "store freshWorld = 1"
    by (simp_all add: freshWorld_def)
  from askYoutube_skips_ingestion [OF h1 h2, of "''What is this video about?''" demoContext
         DEFAULT_CONFIG] h1 h2 w
  show ?thesis by simp
qed

section \<open>The system prompt\<close>

lemma sublist_join:
  "x \<in> set xs \<Longrightarrow> sublist x (join sep xs)"
proof (induction sep xs rule: join.induct)
  case (1 sep)
  then show ?case by simp
next
  case (2 sep x')
  then show ?case by simp
next
  case (3 sep x' y ys)
  show ?case
  proof (cases "x = x'")
    case True
    then show ?thesis by (simp add: sublist_append_rightI)
  next
    case False
    with 3 have "sublist x (join sep (y # ys))" by simp
    then have "sublist x ((x' @ sep) @ join sep (y # ys))"
      by (metis sublist_append_leftI sublist_order.order_trans)
    then show ?thesis by simp
  qed
qed

lemma suffix_PromptContext:
  "suffix (PromptContext results) (systemPrompt context results)"
  unfolding systemPrompt_def suffix_def
  by (rule exI [of _ "promptHead @
     ''    Title: '' @ titleText context @ newline @
     ''    Description: '' @ descriptionText context @ newline @
     ''    Current User Timestamp: '' @ timestampText context @ newline @
     promptInstructions @ ''    ''"]) simp

lemma sublist_titleText:
  "sublist (''Title: '' @ titleText context @ newline) (systemPrompt context results)"
proof -
  have "systemPrompt context results =
      (promptHead @ ''    '') @ (''Title: '' @ titleText context @ newline) @
      (''    Description: '' @ descriptionText context @ newline @
       ''    Current User Timestamp: '' @ timestampText context @ newline @
       promptInstructions @ ''    '' @ PromptContext results)"
    by (simp add: systemPrompt_def)
  then show ?thesis by (metis sublist_appendI)
qed

lemma sublist_descriptionText:
  "sublist (''Description: '' @ descriptionText context @ newline) (systemPrompt context results)"
proof -
  have "systemPrompt context results =
      (promptHead @ ''    Title: '' @ titleText context @ newline @ ''    '') @
      (''Description: '' @ descriptionText context @ newline) @
      (''    Current User Timestamp: '' @ timestampText context @ newline @
       promptInstructions @ ''    '' @ PromptContext results)"
    by (simp add: systemPrompt_def)
  then show ?thesis by (metis sublist_appendI)
qed

lemma sublist_timestampText:
  "sublist (''Current User Timestamp: '' @ timestampText context @ newline)
     (systemPrompt context results)"
proof -
  have "systemPrompt context results =
      (promptHead @ ''    Title: '' @ titleText context @ newline @
       ''    Description: '' @ descriptionText context @ newline @ ''    '') @
      (''Current User Timestamp: '' @ timestampText context @ newline) @
      (promptInstructions @ ''    '' @ PromptContext results)"
    by (simp add: systemPrompt_def)
  then show ?thesis by (metis sublist_appendI)
qed

lemma sublist_part: "sublist (a @ x @ b) ys \<Longrightarrow> sublist x ys"
  by (metis sublist_appendI sublist_order.order_trans)

text \<open>
  Claim C8, as amended. For a non-empty retrieval result the system prompt contains the
  title and the description that came with the request (on their \<open>Title:\<close> and
  \<open>Description:\<close> lines when not empty); its time stamp line reads the floor of the time
  stamp followed by \<open>s\<close> when the time stamp is present, not zero and below \<open>2\<^sup>5\<^sup>3\<close> in
  magnitude, and \<open>Start\<close> when it is absent or zero; and it ends with the retrieved passages, each behind the marker
  \<open>[Context Chunk]: \<close>, joined by blank lines in retrieval order. That prompt is the one the
  returned chain carries.
\<close>

theorem systemPrompt_contents:
  assumes "results \<noteq> []"
  shows "(title context = Some t \<longrightarrow> sublist t (systemPrompt context results))
    \<and> (title context = Some t \<longrightarrow> t \<noteq> [] \<longrightarrow>
         sublist (''Title: '' @ t @ newline) (systemPrompt context results))
    \<and> (description context = Some d \<longrightarrow> sublist d (systemPrompt context results))
    \<and> (description context = Some d \<longrightarrow> d \<noteq> [] \<longrightarrow>
         sublist (''Description: '' @ d @ newline) (systemPrompt context results))
    \<and> (timestamp context = Some s \<longrightarrow> s \<noteq> 0 \<longrightarrow> \<bar>s\<bar> < 2 ^ 53 \<longrightarrow>
         sublist (''Current User Timestamp: '' @ numberToString \<lfloor>s\<rfloor> @ ''s'' @ newline)
           (systemPrompt context results))
    \<and> (timestamp context = None \<or> timestamp context = Some 0 \<longrightarrow>
         sublist (''Current User Timestamp: Start'' @ newline) (systemPrompt context results))
    \<and> suffix (join (newline @ newline)
                (map (\<lambda>doc. ''[Context Chunk]: '' @ pageContent doc) results))
         (systemPrompt context results)
    \<and> (\<forall>doc \<in> set results.
         sublist (''[Context Chunk]: '' @ pageContent doc) (systemPrompt context results))
    \<and> (retrieverInvoke env w namespace q (topK finalConfig) = Inr results \<longrightarrow>
        promptFromMessages env (systemPrompt context results) = None \<longrightarrow>
        retrieveAndCompose env finalConfig namespace q context w =
          (Inr (Chain (systemPrompt context results)),
           logEvent (RetrieverInvoke namespace q (topK finalConfig)) w))"
proof -
  let ?P = "systemPrompt context results"
  have title_line: "title context = Some t \<Longrightarrow> t \<noteq> [] \<Longrightarrow> sublist (''Title: '' @ t @ newline) ?P"
    using sublist_titleText [of "context" results] by (simp add: titleText_def)
  have title_in: "title context = Some t \<Longrightarrow> sublist t ?P"
  proof (cases "t = []")
    case True
    then show ?thesis by simp
  next
    case False
    assume "title context = Some t"
    from title_line [OF this False] show ?thesis by (rule sublist_part)
  qed
  have desc_line: "description context = Some d \<Longrightarrow> d \<noteq> [] \<Longrightarrow>
      sublist (''Description: '' @ d @ newline) ?P"
    using sublist_descriptionText [of "context" results] by (simp add: descriptionText_def)
  have desc_in: "description context = Some d \<Longrightarrow> sublist d ?P"
  proof (cases "d = []")
    case True
    then show ?thesis by simp
  next
    case False
    assume "description context = Some d"
    from desc_line [OF this False] show ?thesis by (rule sublist_part)
  qed
  have ts_line: "timestamp context = Some s \<Longrightarrow> s \<noteq> 0 \<Longrightarrow>
      sublist (''Current User Timestamp: '' @ numberToString \<lfloor>s\<rfloor> @ ''s'' @ newline) ?P"
    using sublist_timestampText [of "context" results] by (simp add: timestampText_def)
  have ts_start: "timestamp context = None \<or> timestamp context = Some 0 \<Longrightarrow>
      sublist (''Current User Timestamp: Start'' @ newline) ?P"
    using sublist_timestampText [of "context" results] by (auto simp: timestampText_def)
  have chunks: "suffix (join (newline @ newline)
                (map (\<lambda>doc. ''[Context Chunk]: '' @ pageContent doc) results)) ?P"
    using suffix_PromptContext [of results "context"]
    by (simp add: PromptContext_def CONTEXT_MARKER_def)
  have each: "sublist (''[Context Chunk]: '' @ pageContent doc) ?P" if "doc \<in> set results" for doc
  proof -
    from that have "''[Context Chunk]: '' @ pageContent doc
        \<in> set (map (\<lambda>doc. ''[Context Chunk]: '' @ pageContent doc) results)"
      by auto
    then have "sublist (''[Context Chunk]: '' @ pageContent doc)
        (join (newline @ newline) (map (\<lambda>doc. ''[Context Chunk]: '' @ pageContent doc) results))"
      by (rule sublist_join)
    then show ?thesis
      using suffix_imp_sublist [OF chunks] by (rule sublist_order.order_trans)
  qed
  have chain: "retrieverInvoke env w namespace q (topK finalConfig) = Inr results \<Longrightarrow>
        promptFromMessages env ?P = None \<Longrightarrow>
        retrieveAndCompose env finalConfig namespace q context w =
          (Inr (Chain ?P), logEvent (RetrieverInvoke namespace q (topK finalConfig)) w)"
    using assms by (simp add: retrieveAndCompose_def Let_def)
  from title_line title_in desc_line desc_in ts_line ts_start chunks each chain
  show ?thesis by blast
qed

theorem systemPrompt_contents_witness:
  "demoResults \<noteq> [] \<and>
   sublist ''Rick Astley - Never Gonna Give You Up'' (systemPrompt midContext demoResults) \<and>
   sublist ''The official video'' (systemPrompt midContext demoResults) \<and>
   sublist (''Current User Timestamp: 12s'' @ newline) (systemPrompt midContext demoResults) \<and>
   sublist (''Current User Timestamp: Start'' @ newline) (systemPrompt startContext demoResults) \<and>
   suffix (''[Context Chunk]: Never gonna give you up.'' @ newline @ newline @
           ''[Context Chunk]: Never gonna let you down.'')
     (systemPrompt midContext demoResults)"
proof -
  have r: "demoResults \<noteq> []" by (simp add: demoResults_def)
  have m: "title midContext = Some ''Rick Astley - Never Gonna Give You Up''"
    "description midContext = Some ''The official video''"
    "timestamp midContext = Some (127 / 10)" "timestamp startContext = Some 0"
    by (simp_all add: midContext_def startContext_def)
  have n: "numberToString \<lfloor>127 / 10 :: real\<rfloor> = ''12''"
    by (simp add: numberToString_def decimal.simps)
  have j: "join (newline @ newline)
             (map (\<lambda>doc. ''[Context Chunk]: '' @ pageContent doc) demoResults) =
           ''[Context Chunk]: Never gonna give you up.'' @ newline @ newline @
           ''[Context Chunk]: Never gonna let you down.''"
    by (simp add: demoResults_def)
  note mid = systemPrompt_contents [OF r, of midContext "''Rick Astley - Never Gonna Give You Up''"
         "''The official video''" "127 / 10" demoEnv emptyWorld demoNamespace "''q''" DEFAULT_CONFIG]
  note start = systemPrompt_contents [OF r, of startContext "''Rick Astley - Never Gonna Give You Up''"
         "''The official video''" 0 demoEnv emptyWorld demoNamespace "''q''" DEFAULT_CONFIG]
  have nz: "(127 / 10 :: real) \<noteq> 0" "\<bar>127 / 10 :: real\<bar> < 2 ^ 53" by simp_all
  from mid m have a1: "sublist ''Rick Astley - Never Gonna Give You Up''
      (systemPrompt midContext demoResults)" by blast
  from mid m have a2: "sublist ''The official video'' (systemPrompt midContext demoResults)"
    by blast
  from mid m nz have a3: "sublist (''Current User Timestamp: '' @
      numberToString \<lfloor>127 / 10 :: real\<rfloor> @ ''s'' @ newline) (systemPrompt midContext demoResults)"
    by blast
  from start m have a4: "sublist (''Current User Timestamp: Start'' @ newline)
      (systemPrompt startContext demoResults)" by blast
  from mid have a5: "suffix (join (newline @ newline)
      (map (\<lambda>doc. ''[Context Chunk]: '' @ pageContent doc) demoResults))
      (systemPrompt midContext demoResults)" by blast
  from r a1 a2 a3 [unfolded n] a4 a5 [unfolded j] show ?thesis by simp
qed

text \<open>
  Against claim C8 as it was stated: a time stamp of \<open>0\<close> is present, yet the prompt does
  not show it floored to whole seconds. The interpolation tests the truthiness of
  \<^verbatim>\<open>context.timestamp\<close>, so the line reads \<open>Start\<close>.
\<close>

theorem systemPrompt_zero_timestamp:
  "demoResults \<noteq> [] \<and> timestamp startContext = Some 0 \<and>
   timestampText startContext = ''Start'' \<and>
   \<not> sublist (''Current User Timestamp: '' @ numberToString \<lfloor>0::real\<rfloor> @ ''s'')
       (systemPrompt startContext demoResults)"
proof -
  have "\<not> sublist (''Current User Timestamp: '' @ numberToString \<lfloor>0::real\<rfloor> @ ''s'')
       (systemPrompt startContext demoResults)"
    by code_simp
  then show ?thesis
    by (simp add: demoResults_def startContext_def timestampText_def)
qed

section \<open>Two whole requests\<close>

text \<open>
  The handler on the scripted environment, starting with nothing cached or stored: the
  transcript that came with the request is split and stored at the third attempt, one
  passage is retrieved and the chain is streamed. With a store that refuses every write,
  the third error ends the request with status 500 and the cache stays empty.
\<close>

lemma handler_demo_run:
  "handler demoEnv demoBody emptyWorld =
     (\<lparr>statusCode = 200, written = [RawText ''It is a song.'']\<rparr>,
      \<lparr>embeddingCache = [''yt-dQw4w9WgXcQ'' \<mapsto> 1700000000007], store = 1,
       trace = [DescribeIndexStats,
                SplitText ''Never gonna give you up. Never gonna let you down.'',
                AddDocuments ''yt-dQw4w9WgXcQ'' demoChunks (Some upsertFailed), Sleep 2000,
                AddDocuments ''yt-dQw4w9WgXcQ'' demoChunks (Some upsertFailed), Sleep 4000,
                AddDocuments ''yt-dQw4w9WgXcQ'' demoChunks None, Sleep 2000,
                RetrieverInvoke ''yt-dQw4w9WgXcQ'' ''What is this video about?'' 6,
                ModelStream (systemPrompt (query_context.truncate demoBody)
                    [\<lparr>pageContent = ''Never gonna give you up.'', metadata = OtherMeta\<rparr>])
                  ''What is this video about?'']\<rparr>)"
  by (simp add: handler_def askYoutube_def ensureIndexed_def namespaceExists_def cacheFresh_def
      ingest_def loadTranscript_def retrieveAndCompose_def storeWithRetries.simps
      demoEnv_def demoBody_def emptyWorld_def DEFAULT_CONFIG_def logEvent_def Let_def
      demoChunks_def upsertFailed_def trim_def isWhiteSpace_def query_context.truncate_def
      demoUrl_def SEPARATORS_def)

lemma handler_write_failure_run:
  "handler alwaysFailingEnv demoBody emptyWorld =
     (\<lparr>statusCode = 500, written = [JsonObject ''error'' ''upsert failed'']\<rparr>,
      \<lparr>embeddingCache = Map.empty, store = 0,
       trace = [DescribeIndexStats,
                SplitText ''Never gonna give you up. Never gonna let you down.'',
                AddDocuments ''yt-dQw4w9WgXcQ'' demoChunks (Some upsertFailed), Sleep 2000,
                AddDocuments ''yt-dQw4w9WgXcQ'' demoChunks (Some upsertFailed), Sleep 4000,
                AddDocuments ''yt-dQw4w9WgXcQ'' demoChunks (Some upsertFailed)]\<rparr>)"
  by (simp add: handler_def askYoutube_def ensureIndexed_def namespaceExists_def cacheFresh_def
      ingest_def loadTranscript_def retrieveAndCompose_def storeWithRetries.simps
      alwaysFailingEnv_def serverError_def
      demoEnv_def demoBody_def emptyWorld_def DEFAULT_CONFIG_def logEvent_def Let_def
      demoChunks_def upsertFailed_def trim_def isWhiteSpace_def query_context.truncate_def
      demoUrl_def SEPARATORS_def)

end
